theory Spec2Isabelle
  imports Main "HOL-Library.List_Lexorder" "HOL-Library.Char_ord" "HOL-Library.AList"
begin

section \<open>Configuration service: environments and their variables\<close>

text \<open>
  A shallow embedding of \<^verbatim>\<open>api/server.js\<close>, \<^verbatim>\<open>api/models/Environment.js\<close> and
  \<^verbatim>\<open>api/models/Variable.js\<close>. Every Express handler becomes a function from the
  database state and the request (route parameters, query, JSON body) to the new database
  state and the response. The relational store behind Sequelize is a record of two row
  lists; what the store enforces is read off the model declarations: \<^verbatim>\<open>unique: true\<close>
  on \<^verbatim>\<open>Environment.name\<close>, \<^verbatim>\<open>allowNull: false\<close>, \<^verbatim>\<open>STRING(100)\<close>, the unique index on
  \<^verbatim>\<open>['environment_id', 'name']\<close>, the foreign key of \<^verbatim>\<open>belongsTo\<close> and
  \<^verbatim>\<open>onDelete: 'CASCADE'\<close> of \<^verbatim>\<open>hasMany\<close>.

  Scope of the model: strings are byte strings and the two case conversions act on the
  ASCII letters only; a request body is the record of the keys that the handlers and the
  models read, each key absent (\<^verbatim>\<open>undefined\<close>), \<^verbatim>\<open>null\<close> or a value of its column's type
  (\<^verbatim>\<open>environment_id\<close>: absent or an integer); a handler takes the route parameters as
  Express hands them over; the columns \<^verbatim>\<open>created_at\<close> and \<^verbatim>\<open>updated_at\<close> are left out,
  no handler reads them; a new row takes the next value of its id sequence, which moves
  only when a row is inserted; a value longer than a \<^verbatim>\<open>STRING(100)\<close> column is refused
  (the store's cutting of excess trailing blanks is left out); rows are ordered by name
  bytewise; the store answers every query (no connection failure) and requests run one
  after the other.
\<close>

subsection \<open>JavaScript strings\<close>

definition toUpperChar :: "char \<Rightarrow> char" where
  "toUpperChar c =
     (let n = (of_char c :: nat) in if 97 \<le> n \<and> n \<le> 122 then char_of (n - 32) else c)"

definition toLowerChar :: "char \<Rightarrow> char" where
  "toLowerChar c =
     (let n = (of_char c :: nat) in if 65 \<le> n \<and> n \<le> 90 then char_of (n + 32) else c)"

definition toUpperCase :: "string \<Rightarrow> string" where
  "toUpperCase s = map toUpperChar s"

definition toLowerCase :: "string \<Rightarrow> string" where
  "toLowerCase s = map toLowerChar s"

definition endsWith :: "string \<Rightarrow> string \<Rightarrow> bool" where
  "endsWith s t = (length t \<le> length s \<and> drop (length s - length t) s = t)"

text \<open>A template string's \<^verbatim>\<open>'${s}'\<close>.\<close>

definition quoted :: "string \<Rightarrow> string" where
  "quoted s = [CHR 0x27] @ s @ [CHR 0x27]"

text \<open>\<^verbatim>\<open>s.substring(0, e)\<close> for \<open>0 \<le> e \<le> s.length\<close>.\<close>

definition substring0 :: "string \<Rightarrow> nat \<Rightarrow> string" where
  "substring0 s e = take e s"

subsection \<open>Rows, store, request bodies\<close>

text \<open>A key of a JSON body: absent (\<^verbatim>\<open>undefined\<close> after destructuring), \<^verbatim>\<open>null\<close>, or a value.\<close>

datatype 'a field = Absent | Null | Val 'a

record environment =
  env_id :: nat
  env_name :: string
  env_description :: "string option"

record variable =
  var_id :: nat
  var_name :: string
  var_value :: string
  var_description :: "string option"
  var_is_sensitive :: bool
  var_environment_id :: nat

record db =
  environments :: "environment list"
  variables :: "variable list"
  env_seq :: nat
  var_seq :: nat

record env_body =
  eb_name :: "string field"
  eb_description :: "string field"

record var_body =
  vb_name :: "string field"
  vb_value :: "string field"
  vb_description :: "string field"
  vb_is_sensitive :: "bool field"
  vb_environment_id :: "nat option"

record query =
  q_page :: "string option"
  q_limit :: "string option"

subsection \<open>Errors and responses\<close>

text \<open>A thrown JavaScript error: \<^verbatim>\<open>name\<close>, \<^verbatim>\<open>message\<close>, \<^verbatim>\<open>stack\<close> (its first line; the
  frames are left out) and, for the errors of Sequelize, the messages of \<^verbatim>\<open>errors[i]\<close>.\<close>

datatype js_error =
  JsError (err_name: string) (err_message: string) (err_stack: string) (err_errors: "string list")

datatype payload =
    SendText string
  | NoBody
  | ErrorBody string string
  | InternalErrorBody string string string
  | MessageBody string
  | EnvData string environment
  | VarData string variable
  | FlatConfig "(string \<times> string) list"
  | EnvPage int int int "environment list"
  | VarPage string int int int "variable list"

record response =
  status :: nat
  body :: payload

definition type_error :: "string \<Rightarrow> js_error" where
  "type_error m = JsError ''TypeError'' m (''TypeError: '' @ m) []"

text \<open>The message of a validation error: the messages of its items, joined by a comma
  and a line feed.\<close>

fun join_items :: "string list \<Rightarrow> string" where
  "join_items [] = []"
| "join_items [m] = m"
| "join_items (m # ms) = m @ [CHR '','', CHR 0x0A] @ join_items ms"

definition validation_error :: "string list \<Rightarrow> js_error" where
  "validation_error ms =
     JsError ''SequelizeValidationError''
       (join_items (map (\<lambda>m. ''notNull Violation: '' @ m) ms))
       (''SequelizeValidationError: ''
          @ join_items (map (\<lambda>m. ''notNull Violation: '' @ m) ms)) ms"

definition unique_constraint_error :: "string list \<Rightarrow> js_error" where
  "unique_constraint_error cols =
     JsError ''SequelizeUniqueConstraintError'' ''Validation error''
       ''SequelizeUniqueConstraintError: Validation error''
       (map (\<lambda>c. c @ '' must be unique'') cols)"

definition foreign_key_error :: js_error where
  "foreign_key_error =
     JsError ''SequelizeForeignKeyConstraintError''
       ''insert or update on table variables violates foreign key constraint''
       (''SequelizeForeignKeyConstraintError: ''
          @ ''insert or update on table variables violates foreign key constraint'') []"

definition database_error :: "string \<Rightarrow> js_error" where
  "database_error m = JsError ''SequelizeDatabaseError'' m (''SequelizeDatabaseError: '' @ m) []"

text \<open>The last \<^verbatim>\<open>app.use((err, req, res, next) => ...)\<close>: the stack goes to the console,
  the message goes into the body.\<close>

definition global_error_handler :: "js_error \<Rightarrow> response" where
  "global_error_handler err =
     \<lparr>status = 500,
      body = InternalErrorBody ''Internal Server Error''
               ''An unexpected error occurred on the server side.'' (err_message err)\<rparr>"

text \<open>The \<^verbatim>\<open>catch\<close> block of the handlers that write: the listed Sequelize errors
  answer 400 with \<^verbatim>\<open>error.errors[0].message\<close>, everything else goes to \<^verbatim>\<open>next(error)\<close>.
  Reading \<^verbatim>\<open>errors[0]\<close> of an empty list throws a TypeError inside the \<^verbatim>\<open>catch\<close>.\<close>

definition catch_error :: "string list \<Rightarrow> js_error \<Rightarrow> response" where
  "catch_error names error =
     (if err_name error \<in> set names then
        (case err_errors error of
           m # _ \<Rightarrow> \<lparr>status = 400, body = ErrorBody ''Validation Error'' m\<rparr>
         | [] \<Rightarrow> global_error_handler
                  (type_error ''Cannot read properties of undefined (reading 'message')''))
      else global_error_handler error)"

definition unique_or_validation :: "string list" where
  "unique_or_validation = [''SequelizeUniqueConstraintError'', ''SequelizeValidationError'']"

subsection \<open>Environment lookup (middleware \<^verbatim>\<open>findEnvironment\<close>)\<close>

definition Environment_findOne :: "db \<Rightarrow> string \<Rightarrow> environment option" where
  "Environment_findOne d nm = find (\<lambda>e. env_name e = nm) (environments d)"

definition Environment_findByPk :: "db \<Rightarrow> nat \<Rightarrow> environment option" where
  "Environment_findByPk d i = find (\<lambda>e. env_id e = i) (environments d)"

text \<open>The name the middleware looks up: the route parameter without a trailing
  \<^verbatim>\<open>.json\<close> (tested on the lower-cased parameter), in upper case.\<close>

definition lookup_name :: "string \<Rightarrow> string" where
  "lookup_name param =
     (let env_name = (if endsWith (toLowerCase param) ''.json''
                      then substring0 param (length param - 5) else param)
      in toUpperCase env_name)"

definition findEnvironment :: "db \<Rightarrow> string \<Rightarrow> response + environment" where
  "findEnvironment d param =
     (let env_name = lookup_name param in
      case Environment_findOne d env_name of
        None \<Rightarrow> Inl \<lparr>status = 404,
                     body = ErrorBody ''Not Found'' (''Environment '' @ quoted env_name @ '' not found.'')\<rparr>
      | Some environment \<Rightarrow> Inr environment)"

subsection \<open>Massive consumption: \<^verbatim>\<open>GET /environments/:env_name.json\<close>\<close>

text \<open>The assignment \<^verbatim>\<open>acc[k] = v\<close> on the plain object \<^verbatim>\<open>acc\<close>, for a string \<open>v\<close>. The
  key \<^verbatim>\<open>__proto__\<close> reaches the accessor inherited from \<^verbatim>\<open>Object.prototype\<close>, whose
  setter ignores a value that is neither an object nor \<^verbatim>\<open>null\<close>: no own property is
  created. Every other key becomes an own property, or overwrites it in place.\<close>

definition obj_set :: "(string \<times> string) list \<Rightarrow> string \<Rightarrow> string \<Rightarrow> (string \<times> string) list" where
  "obj_set acc k v = (if k = ''__proto__'' then acc else AList.update k v acc)"

definition flatten :: "variable list \<Rightarrow> (string \<times> string) list" where
  "flatten vars = foldl (\<lambda>acc variable. obj_set acc (var_name variable) (var_value variable)) [] vars"

definition variables_of :: "db \<Rightarrow> nat \<Rightarrow> variable list" where
  "variables_of d i = filter (\<lambda>v. var_environment_id v = i) (variables d)"

definition get_environment_json :: "db \<Rightarrow> string \<Rightarrow> db \<times> response" where
  "get_environment_json d param =
     (case findEnvironment d param of
        Inl r \<Rightarrow> (d, r)
      | Inr req_environment \<Rightarrow>
          (case Environment_findByPk d (env_id req_environment) of
             None \<Rightarrow> (d, global_error_handler
                          (type_error ''Cannot read properties of null (reading 'variables')''))
           | Some environment \<Rightarrow>
               (d, \<lparr>status = 200,
                    body = FlatConfig (flatten (variables_of d (env_id environment)))\<rparr>)))"

subsection \<open>Pagination\<close>

definition is_white :: "char \<Rightarrow> bool" where
  "is_white c = (of_char c \<in> set [32, 9, 10, 11, 12, 13 :: nat])"

definition digit_of :: "char \<Rightarrow> nat option" where
  "digit_of c =
     (let n = (of_char c :: nat) in
      if 48 \<le> n \<and> n \<le> 57 then Some (n - 48)
      else if 97 \<le> n \<and> n \<le> 122 then Some (n - 87)
      else if 65 \<le> n \<and> n \<le> 90 then Some (n - 55)
      else None)"

fun parse_digits :: "nat \<Rightarrow> nat option \<Rightarrow> string \<Rightarrow> nat option" where
  "parse_digits R acc [] = acc"
| "parse_digits R acc (c # cs) =
     (case digit_of c of
        None \<Rightarrow> acc
      | Some k \<Rightarrow>
          if k < R
          then parse_digits R (Some (case acc of None \<Rightarrow> k | Some a \<Rightarrow> a * R + k)) cs
          else acc)"

text \<open>\<^verbatim>\<open>parseInt(s)\<close> without a radix; \<open>None\<close> is \<^verbatim>\<open>NaN\<close>. The result is exact (JavaScript
  rounds beyond \<open>2\<^sup>5\<^sup>3\<close>).\<close>

definition parseInt :: "string \<Rightarrow> int option" where
  "parseInt s =
     (let S = dropWhile is_white s;
          sign = (if take 1 S = ''-'' then - 1 else (1 :: int));
          S = (if take 1 S = ''-'' \<or> take 1 S = ''+'' then drop 1 S else S);
          R = (if take 2 S = ''0x'' \<or> take 2 S = ''0X'' then 16 else (10 :: nat));
          S = (if take 2 S = ''0x'' \<or> take 2 S = ''0X'' then drop 2 S else S)
      in map_option (\<lambda>n. sign * int n) (parse_digits R None S))"

text \<open>\<^verbatim>\<open>parseInt(req.query.k) || dflt\<close>: an absent key, \<^verbatim>\<open>NaN\<close> and \<open>0\<close> give the default.\<close>

definition parseInt_or :: "string option \<Rightarrow> int \<Rightarrow> int" where
  "parseInt_or p dflt =
     (case p of
        None \<Rightarrow> dflt
      | Some s \<Rightarrow> (case parseInt s of None \<Rightarrow> dflt | Some n \<Rightarrow> if n = 0 then dflt else n))"

text \<open>\<^verbatim>\<open>Math.ceil(count / limit)\<close> for integers, \<open>limit \<noteq> 0\<close>.\<close>

definition ceil_div :: "int \<Rightarrow> int \<Rightarrow> int" where
  "ceil_div count limit = - ((- count) div limit)"

text \<open>The rows of \<^verbatim>\<open>findAndCountAll({limit, offset, order})\<close> on rows already ordered;
  the store rejects a negative \<^verbatim>\<open>OFFSET\<close> or \<^verbatim>\<open>LIMIT\<close>.\<close>

definition limit_offset :: "int \<Rightarrow> int \<Rightarrow> 'a list \<Rightarrow> js_error + 'a list" where
  "limit_offset limit offset rows =
     (if offset < 0 then Inl (database_error ''OFFSET must not be negative'')
      else if limit < 0 then Inl (database_error ''LIMIT must not be negative'')
      else Inr (take (nat limit) (drop (nat offset) rows)))"

definition get_environments :: "db \<Rightarrow> query \<Rightarrow> db \<times> response" where
  "get_environments d q =
     (let page = parseInt_or (q_page q) 1;
          limit = parseInt_or (q_limit q) 10;
          offset = (page - 1) * limit;
          count = int (length (environments d))
      in case limit_offset limit offset (sort_key env_name (environments d)) of
           Inl error \<Rightarrow> (d, global_error_handler error)
         | Inr rows \<Rightarrow>
             (d, \<lparr>status = 200, body = EnvPage count (ceil_div count limit) page rows\<rparr>))"

subsection \<open>Environments resource\<close>

text \<open>\<^verbatim>\<open>Environment.create({ name, description })\<close>. Building the instance calls the
  setter of \<^verbatim>\<open>name\<close> with the value given, also when it is \<^verbatim>\<open>undefined\<close> or \<^verbatim>\<open>null\<close>:
  \<^verbatim>\<open>value.toUpperCase()\<close> throws a TypeError before any validation runs. The insert is
  checked by the store: \<^verbatim>\<open>STRING(100)\<close> and \<^verbatim>\<open>unique: true\<close>. The new row takes the
  next value of the id sequence.\<close>

definition Environment_create ::
    "db \<Rightarrow> string field \<Rightarrow> string field \<Rightarrow> js_error + (db \<times> environment)" where
  "Environment_create d name description =
     (case name of
        Absent \<Rightarrow>
          Inl (type_error ''Cannot read properties of undefined (reading 'toUpperCase')'')
      | Null \<Rightarrow>
          Inl (type_error ''Cannot read properties of null (reading 'toUpperCase')'')
      | Val value \<Rightarrow>
          (let nm = toUpperCase value in
           if 100 < length nm
           then Inl (database_error ''value too long for type character varying(100)'')
           else if nm \<in> set (map env_name (environments d))
           then Inl (unique_constraint_error [''name''])
           else
             (let row = \<lparr>env_id = Suc (env_seq d), env_name = nm,
                         env_description = (case description of Val t \<Rightarrow> Some t | _ \<Rightarrow> None)\<rparr>
              in Inr (d\<lparr>environments := environments d @ [row], env_seq := Suc (env_seq d)\<rparr>,
                      row))))"

definition post_environments :: "db \<Rightarrow> env_body \<Rightarrow> db \<times> response" where
  "post_environments d b =
     (case Environment_create d (eb_name b) (eb_description b) of
        Inl error \<Rightarrow> (d, catch_error unique_or_validation error)
      | Inr (d', newEnvironment) \<Rightarrow>
          (d', \<lparr>status = 201,
                body = EnvData ''Environment created successfully'' newEnvironment\<rparr>))"

definition get_environment :: "db \<Rightarrow> string \<Rightarrow> db \<times> response" where
  "get_environment d param =
     (case findEnvironment d param of
        Inl r \<Rightarrow> (d, r)
      | Inr environment \<Rightarrow>
          (d, \<lparr>status = 200,
               body = EnvData (''Details for environment: '' @ env_name environment)
                        environment\<rparr>))"

text \<open>\<^verbatim>\<open>instance.update({ description })\<close>: a key whose value is \<^verbatim>\<open>undefined\<close> is
  dropped, so nothing is written; \<^verbatim>\<open>null\<close> clears the column. The column is
  \<^verbatim>\<open>TEXT\<close> with \<^verbatim>\<open>allowNull: true\<close>: no validation can fail, and the \<^verbatim>\<open>catch\<close> blocks of
  the two handlers below are never entered.\<close>

definition set_description :: "string field \<Rightarrow> string option \<Rightarrow> string option" where
  "set_description f old = (case f of Absent \<Rightarrow> old | Null \<Rightarrow> None | Val t \<Rightarrow> Some t)"

definition Environment_update :: "db \<Rightarrow> environment \<Rightarrow> string field \<Rightarrow> db \<times> environment" where
  "Environment_update d e description =
     (d\<lparr>environments :=
          map (\<lambda>r. if env_id r = env_id e
                    then r\<lparr>env_description := set_description description (env_description r)\<rparr>
                    else r) (environments d)\<rparr>,
      e\<lparr>env_description := set_description description (env_description e)\<rparr>)"

definition put_environment :: "db \<Rightarrow> string \<Rightarrow> env_body \<Rightarrow> db \<times> response" where
  "put_environment d param b =
     (case findEnvironment d param of
        Inl r \<Rightarrow> (d, r)
      | Inr environment \<Rightarrow>
          (case Environment_update d environment (eb_description b) of
             (d', environment') \<Rightarrow>
               (d', \<lparr>status = 200,
                     body = EnvData (''Environment '' @ env_name environment'
                                       @ '' fully updated (description only)'')
                              environment'\<rparr>)))"

definition patch_environment :: "db \<Rightarrow> string \<Rightarrow> env_body \<Rightarrow> db \<times> response" where
  "patch_environment d param b =
     (case findEnvironment d param of
        Inl r \<Rightarrow> (d, r)
      | Inr environment \<Rightarrow>
          (case (if eb_description b \<noteq> Absent
                 then Environment_update d environment (eb_description b)
                 else (d, environment)) of
             (d', environment') \<Rightarrow>
               (d', \<lparr>status = 200,
                     body = EnvData (''Environment '' @ env_name environment'
                                       @ '' partially updated'')
                              environment'\<rparr>)))"

text \<open>\<^verbatim>\<open>instance.destroy()\<close>: the row goes, and with it (\<^verbatim>\<open>ON DELETE CASCADE\<close>) every
  variable row whose \<^verbatim>\<open>environment_id\<close> is its id.\<close>

definition Environment_destroy :: "db \<Rightarrow> environment \<Rightarrow> db" where
  "Environment_destroy d e =
     d\<lparr>environments := filter (\<lambda>r. env_id r \<noteq> env_id e) (environments d),
       variables := filter (\<lambda>v. var_environment_id v \<noteq> env_id e) (variables d)\<rparr>"

definition delete_environment :: "db \<Rightarrow> string \<Rightarrow> db \<times> response" where
  "delete_environment d param =
     (case findEnvironment d param of
        Inl r \<Rightarrow> (d, r)
      | Inr environment \<Rightarrow> (Environment_destroy d environment, \<lparr>status = 204, body = NoBody\<rparr>))"

subsection \<open>Variables resource\<close>

definition var_key :: "variable \<Rightarrow> nat \<times> string" where
  "var_key v = (var_environment_id v, var_name v)"

definition get_variables :: "db \<Rightarrow> string \<Rightarrow> query \<Rightarrow> db \<times> response" where
  "get_variables d param q =
     (case findEnvironment d param of
        Inl r \<Rightarrow> (d, r)
      | Inr environment \<Rightarrow>
          (let page = parseInt_or (q_page q) 1;
               limit = parseInt_or (q_limit q) 10;
               offset = (page - 1) * limit;
               rows = variables_of d (env_id environment);
               count = int (length rows)
           in case limit_offset limit offset (sort_key var_name rows) of
                Inl error \<Rightarrow> (d, global_error_handler error)
              | Inr page_rows \<Rightarrow>
                  (d, \<lparr>status = 200,
                       body = VarPage (env_name environment) count (ceil_div count limit) page
                                page_rows\<rparr>)))"

text \<open>The \<^verbatim>\<open>allowNull: false\<close> columns of \<^verbatim>\<open>Variable\<close>, in the order of the model.
  On create a missing key violates it as \<^verbatim>\<open>null\<close> does (\<^verbatim>\<open>is_sensitive\<close> has a
  default); on update only the keys given are validated.\<close>

definition notNull_on_create :: "string field \<Rightarrow> string field \<Rightarrow> bool field \<Rightarrow> string list" where
  "notNull_on_create name value is_sensitive =
     (if name = Absent \<or> name = Null then [''Variable.name cannot be null''] else []) @
     (if value = Absent \<or> value = Null then [''Variable.value cannot be null''] else []) @
     (if is_sensitive = Null then [''Variable.is_sensitive cannot be null''] else [])"

definition notNull_on_update :: "var_body \<Rightarrow> string list" where
  "notNull_on_update vals =
     (if vb_name vals = Null then [''Variable.name cannot be null''] else []) @
     (if vb_value vals = Null then [''Variable.value cannot be null''] else []) @
     (if vb_is_sensitive vals = Null then [''Variable.is_sensitive cannot be null''] else [])"

text \<open>\<^verbatim>\<open>Variable.create({...})\<close>: validation, then the insert, checked by the store
  (\<^verbatim>\<open>STRING(100)\<close>, the unique index on \<^verbatim>\<open>(environment_id, name)\<close>, the foreign key).\<close>

definition Variable_create ::
    "db \<Rightarrow> string field \<Rightarrow> string field \<Rightarrow> string field \<Rightarrow> bool field \<Rightarrow> nat
       \<Rightarrow> js_error + (db \<times> variable)" where
  "Variable_create d name value description is_sensitive environment_id =
     (let items = notNull_on_create name value is_sensitive in
      case (items, name, value) of
        ([], Val nm, Val v) \<Rightarrow>
          if 100 < length nm
          then Inl (database_error ''value too long for type character varying(100)'')
          else if (environment_id, nm) \<in> set (map var_key (variables d))
          then Inl (unique_constraint_error [''environment_id'', ''name''])
          else if environment_id \<notin> set (map env_id (environments d))
          then Inl foreign_key_error
          else
            (let row = \<lparr>var_id = Suc (var_seq d), var_name = nm, var_value = v,
                        var_description = (case description of Val t \<Rightarrow> Some t | _ \<Rightarrow> None),
                        var_is_sensitive = (case is_sensitive of Val b \<Rightarrow> b | _ \<Rightarrow> False),
                        var_environment_id = environment_id\<rparr>
             in Inr (d\<lparr>variables := variables d @ [row], var_seq := Suc (var_seq d)\<rparr>, row))
      | _ \<Rightarrow> Inl (validation_error items))"

definition post_variables :: "db \<Rightarrow> string \<Rightarrow> var_body \<Rightarrow> db \<times> response" where
  "post_variables d param b =
     (case findEnvironment d param of
        Inl r \<Rightarrow> (d, r)
      | Inr environment \<Rightarrow>
          (case Variable_create d (vb_name b) (vb_value b) (vb_description b)
                  (if vb_is_sensitive b \<noteq> Absent then vb_is_sensitive b else Val False)
                  (env_id environment) of
             Inl error \<Rightarrow> (d, catch_error unique_or_validation error)
           | Inr (d', newVariable) \<Rightarrow>
               (d', \<lparr>status = 201,
                     body = VarData (''Variable '' @ quoted (var_name newVariable)
                                       @ '' created in '' @ env_name environment)
                              newVariable\<rparr>)))"

text \<open>Middleware \<^verbatim>\<open>findVariable\<close>: the exact name, within the environment found.\<close>

definition findVariable :: "db \<Rightarrow> environment \<Rightarrow> string \<Rightarrow> response + variable" where
  "findVariable d environment var_nm =
     (case find (\<lambda>v. var_environment_id v = env_id environment \<and> var_name v = var_nm)
             (variables d) of
        None \<Rightarrow>
          Inl \<lparr>status = 404,
               body = ErrorBody ''Not Found''
                        (''Variable '' @ quoted var_nm @ '' not found in environment ''
                           @ quoted (env_name environment) @ ''.'')\<rparr>
      | Some variable \<Rightarrow> Inr variable)"

definition get_variable :: "db \<Rightarrow> string \<Rightarrow> string \<Rightarrow> db \<times> response" where
  "get_variable d param var_nm =
     (case findEnvironment d param of
        Inl r \<Rightarrow> (d, r)
      | Inr environment \<Rightarrow>
          (case findVariable d environment var_nm of
             Inl r \<Rightarrow> (d, r)
           | Inr variable \<Rightarrow>
               (d, \<lparr>status = 200,
                    body = VarData (''Details for variable: '' @ var_name variable @ '' in ''
                                      @ env_name environment)
                             variable\<rparr>)))"

text \<open>What \<^verbatim>\<open>instance.update(vals)\<close> writes: the keys of \<open>vals\<close> that are not
  \<^verbatim>\<open>undefined\<close>.\<close>

definition apply_vals :: "var_body \<Rightarrow> variable \<Rightarrow> variable" where
  "apply_vals vals v =
     v\<lparr>var_name := (case vb_name vals of Val nm \<Rightarrow> nm | _ \<Rightarrow> var_name v),
       var_value := (case vb_value vals of Val t \<Rightarrow> t | _ \<Rightarrow> var_value v),
       var_description := set_description (vb_description vals) (var_description v),
       var_is_sensitive := (case vb_is_sensitive vals of Val b \<Rightarrow> b | _ \<Rightarrow> var_is_sensitive v),
       var_environment_id :=
         (case vb_environment_id vals of Some i \<Rightarrow> i | None \<Rightarrow> var_environment_id v)\<rparr>"

text \<open>\<^verbatim>\<open>instance.update(vals)\<close> on a variable: validation of the keys given, then the
  \<^verbatim>\<open>UPDATE ... WHERE id = ...\<close>, checked by the store against the other rows.\<close>

definition Variable_update :: "db \<Rightarrow> variable \<Rightarrow> var_body \<Rightarrow> js_error + (db \<times> variable)" where
  "Variable_update d v vals =
     (let items = notNull_on_update vals; v' = apply_vals vals v in
      if items \<noteq> [] then Inl (validation_error items)
      else if (case vb_name vals of Val nm \<Rightarrow> 100 < length nm | _ \<Rightarrow> False)
      then Inl (database_error ''value too long for type character varying(100)'')
      else if var_key v' \<in> set (map var_key (filter (\<lambda>r. var_id r \<noteq> var_id v) (variables d)))
      then Inl (unique_constraint_error [''environment_id'', ''name''])
      else if (case vb_environment_id vals of
                 Some i \<Rightarrow> i \<notin> set (map env_id (environments d)) | None \<Rightarrow> False)
      then Inl foreign_key_error
      else Inr (d\<lparr>variables :=
                   map (\<lambda>r. if var_id r = var_id v then apply_vals vals r else r) (variables d)\<rparr>,
                v'))"

text \<open>The object literal of the \<^verbatim>\<open>PUT\<close> handler: each of the four keys is the body's
  value unless that is \<^verbatim>\<open>undefined\<close>, then the instance's current value.\<close>

definition put_vals :: "variable \<Rightarrow> var_body \<Rightarrow> var_body" where
  "put_vals variable b =
     \<lparr>vb_name = (if vb_name b \<noteq> Absent then vb_name b else Val (var_name variable)),
      vb_value = (if vb_value b \<noteq> Absent then vb_value b else Val (var_value variable)),
      vb_description =
        (if vb_description b \<noteq> Absent then vb_description b
         else (case var_description variable of None \<Rightarrow> Null | Some t \<Rightarrow> Val t)),
      vb_is_sensitive =
        (if vb_is_sensitive b \<noteq> Absent then vb_is_sensitive b
         else Val (var_is_sensitive variable)),
      vb_environment_id = None\<rparr>"

definition put_variable :: "db \<Rightarrow> string \<Rightarrow> string \<Rightarrow> var_body \<Rightarrow> db \<times> response" where
  "put_variable d param var_nm b =
     (case findEnvironment d param of
        Inl r \<Rightarrow> (d, r)
      | Inr environment \<Rightarrow>
          (case findVariable d environment var_nm of
             Inl r \<Rightarrow> (d, r)
           | Inr variable \<Rightarrow>
               (case Variable_update d variable (put_vals variable b) of
                  Inl error \<Rightarrow> (d, catch_error unique_or_validation error)
                | Inr (d', variable') \<Rightarrow>
                    (d', \<lparr>status = 200,
                          body = VarData (''Variable '' @ var_name variable' @ '' in ''
                                            @ env_name environment @ '' fully updated'')
                                   variable'\<rparr>))))"

definition patch_variable :: "db \<Rightarrow> string \<Rightarrow> string \<Rightarrow> var_body \<Rightarrow> db \<times> response" where
  "patch_variable d param var_nm b =
     (case findEnvironment d param of
        Inl r \<Rightarrow> (d, r)
      | Inr environment \<Rightarrow>
          (case findVariable d environment var_nm of
             Inl r \<Rightarrow> (d, r)
           | Inr variable \<Rightarrow>
               (case Variable_update d variable b of
                  Inl error \<Rightarrow> (d, catch_error unique_or_validation error)
                | Inr (d', updatedVariable) \<Rightarrow>
                    (d', \<lparr>status = 200,
                          body = VarData (''Variable '' @ var_name updatedVariable @ '' in ''
                                            @ env_name environment @ '' partially updated'')
                                   updatedVariable\<rparr>))))"

definition Variable_destroy :: "db \<Rightarrow> variable \<Rightarrow> db" where
  "Variable_destroy d v = d\<lparr>variables := filter (\<lambda>r. var_id r \<noteq> var_id v) (variables d)\<rparr>"

definition delete_variable :: "db \<Rightarrow> string \<Rightarrow> string \<Rightarrow> db \<times> response" where
  "delete_variable d param var_nm =
     (case findEnvironment d param of
        Inl r \<Rightarrow> (d, r)
      | Inr environment \<Rightarrow>
          (case findVariable d environment var_nm of
             Inl r \<Rightarrow> (d, r)
           | Inr variable \<Rightarrow> (Variable_destroy d variable, \<lparr>status = 204, body = NoBody\<rparr>)))"

subsection \<open>The service as a whole\<close>

datatype request =
    GetStatus
  | GetEnvironmentJson string
  | GetEnvironments query
  | PostEnvironments env_body
  | GetEnvironment string
  | PutEnvironment string env_body
  | PatchEnvironment string env_body
  | DeleteEnvironment string
  | GetVariables string query
  | PostVariables string var_body
  | GetVariable string string
  | PutVariable string string var_body
  | PatchVariable string string var_body
  | DeleteVariable string string
  | GetApiDocs

fun handle :: "db \<Rightarrow> request \<Rightarrow> db \<times> response" where
  "handle d GetStatus = (d, \<lparr>status = 200, body = SendText ''pong''\<rparr>)"
| "handle d (GetEnvironmentJson p) = get_environment_json d p"
| "handle d (GetEnvironments q) = get_environments d q"
| "handle d (PostEnvironments b) = post_environments d b"
| "handle d (GetEnvironment p) = get_environment d p"
| "handle d (PutEnvironment p b) = put_environment d p b"
| "handle d (PatchEnvironment p b) = patch_environment d p b"
| "handle d (DeleteEnvironment p) = delete_environment d p"
| "handle d (GetVariables p q) = get_variables d p q"
| "handle d (PostVariables p b) = post_variables d p b"
| "handle d (GetVariable p n) = get_variable d p n"
| "handle d (PutVariable p n b) = put_variable d p n b"
| "handle d (PatchVariable p n b) = patch_variable d p n b"
| "handle d (DeleteVariable p n) = delete_variable d p n"
| "handle d GetApiDocs =
     (d, \<lparr>status = 200,
          body = MessageBody ''OpenAPI/Swagger schema documentation placeholder''\<rparr>)"

text \<open>The state after a sequence of requests, from the empty store.\<close>

definition empty_db :: db where
  "empty_db = \<lparr>environments = [], variables = [], env_seq = 0, var_seq = 0\<rparr>"

definition run :: "db \<Rightarrow> request list \<Rightarrow> db" where
  "run d reqs = foldl (\<lambda>s r. fst (handle s r)) d reqs"

text \<open>What the store guarantees of its rows: primary keys, the unique name of an
  environment, the unique pair of a variable, the foreign key, and ids below the
  sequences.\<close>

definition vars_unique :: "db \<Rightarrow> bool" where
  "vars_unique d = distinct (map var_key (variables d))"

definition wf_db :: "db \<Rightarrow> bool" where
  "wf_db d =
     (distinct (map env_id (environments d)) \<and>
      distinct (map env_name (environments d)) \<and>
      distinct (map var_id (variables d)) \<and>
      vars_unique d \<and>
      set (map var_environment_id (variables d)) \<subseteq> set (map env_id (environments d)) \<and>
      list_all (\<lambda>e. env_id e \<le> env_seq d) (environments d) \<and>
      list_all (\<lambda>v. var_id v \<le> var_seq d) (variables d))"

subsection \<open>Example stores\<close>

text \<open>Two environments, \<^verbatim>\<open>DEV\<close> (empty) and \<^verbatim>\<open>PROD\<close> with the variables \<^verbatim>\<open>A = 1\<close> and
  \<^verbatim>\<open>B = 2\<close>, built through the service.\<close>

definition example_db :: db where
  "example_db =
     run empty_db
       [PostEnvironments \<lparr>eb_name = Val ''dev'', eb_description = Absent\<rparr>,
        PostEnvironments \<lparr>eb_name = Val ''prod'', eb_description = Val ''live''\<rparr>,
        PostVariables ''prod''
          \<lparr>vb_name = Val ''A'', vb_value = Val ''1'', vb_description = Val ''first'',
           vb_is_sensitive = Val True, vb_environment_id = None\<rparr>,
        PostVariables ''prod''
          \<lparr>vb_name = Val ''B'', vb_value = Val ''2'', vb_description = Absent,
           vb_is_sensitive = Absent, vb_environment_id = None\<rparr>]"



subsection \<open>The update contract in the spec's words\<close>

text \<open>The spec's words for the two updates of a variable, to be compared with the
  handlers: each key of the body that is present overwrites the field, each key that is
  omitted leaves the field at its current value. (A \<^verbatim>\<open>null\<close> clears the optional
  description; for a required column it is refused, so the field stays.) The full update
  reads the four keys \<^verbatim>\<open>name\<close>, \<^verbatim>\<open>value\<close>, \<^verbatim>\<open>description\<close>, \<^verbatim>\<open>is_sensitive\<close>; the
  partial update takes every key of the body.\<close>

definition spec_full_update :: "var_body \<Rightarrow> variable \<Rightarrow> variable" where
  "spec_full_update b v =
     v\<lparr>var_name := (case vb_name b of Absent \<Rightarrow> var_name v | Null \<Rightarrow> var_name v | Val x \<Rightarrow> x),
       var_value := (case vb_value b of Absent \<Rightarrow> var_value v | Null \<Rightarrow> var_value v | Val x \<Rightarrow> x),
       var_description :=
         (case vb_description b of Absent \<Rightarrow> var_description v | Null \<Rightarrow> None | Val x \<Rightarrow> Some x),
       var_is_sensitive :=
         (case vb_is_sensitive b of
            Absent \<Rightarrow> var_is_sensitive v | Null \<Rightarrow> var_is_sensitive v | Val x \<Rightarrow> x)\<rparr>"

definition spec_partial_update :: "var_body \<Rightarrow> variable \<Rightarrow> variable" where
  "spec_partial_update b v =
     (spec_full_update b v)
       \<lparr>var_environment_id :=
          (case vb_environment_id b of None \<Rightarrow> var_environment_id v | Some i \<Rightarrow> i)\<rparr>"

definition only_description :: "string field \<Rightarrow> var_body" where
  "only_description ds =
     \<lparr>vb_name = Absent, vb_value = Absent, vb_description = ds, vb_is_sensitive = Absent,
      vb_environment_id = None\<rparr>"


section \<open>Properties\<close>

subsection \<open>Case conversion and the suffix test\<close>

lemma of_char_toUpperChar:
  "(of_char (toUpperChar c) :: nat) =
     (if 97 \<le> (of_char c :: nat) \<and> (of_char c :: nat) \<le> 122 then of_char c - 32 else of_char c)"
  by (auto simp: toUpperChar_def Let_def of_char_of)


lemma char_eqI: "(of_char a :: nat) = of_char b \<Longrightarrow> a = b"
  by (metis char_of_char)


lemma toUpperChar_idem: "toUpperChar (toUpperChar c) = toUpperChar c"
  by (rule char_eqI) (auto simp: of_char_toUpperChar)


lemma toUpperCase_idem: "toUpperCase (toUpperCase s) = toUpperCase s"
  by (simp add: toUpperCase_def toUpperChar_idem)

lemma toUpperCase_append: "toUpperCase (s @ t) = toUpperCase s @ toUpperCase t"
  by (simp add: toUpperCase_def)


lemma length_toUpperCase: "length (toUpperCase s) = length s"
  by (simp add: toUpperCase_def)










subsection \<open>The centralized error handler\<close>

text \<open>
  C6, as stated, fails: the body of a 500 is not generic, it carries the text of the
  exception under \<^verbatim>\<open>details\<close>. Two exceptions that the service itself raises give two
  different bodies, each holding its raw message.
\<close>

theorem error_handler_leaks_message:
  "body (global_error_handler
           (type_error ''Cannot read properties of undefined (reading 'toUpperCase')'')) =
     InternalErrorBody ''Internal Server Error''
       ''An unexpected error occurred on the server side.''
       ''Cannot read properties of undefined (reading 'toUpperCase')'' \<and>
   body (global_error_handler
           (type_error ''Cannot read properties of undefined (reading 'toUpperCase')'')) \<noteq>
   body (global_error_handler (database_error ''LIMIT must not be negative''))"
  by (simp add: global_error_handler_def type_error_def database_error_def)

text \<open>
  C6, amended: for every exception reaching the centralized handler the response is a 500
  whose \<^verbatim>\<open>error\<close> and \<^verbatim>\<open>message\<close> are fixed texts and whose \<^verbatim>\<open>details\<close> is the
  exception's message; nothing else of the exception (its name, its stack trace, its
  items) reaches the body. A validation or uniqueness error caught by a handler answers
  400 with the message of the first failing constraint.
\<close>

theorem error_handler_body:
  "global_error_handler err =
     \<lparr>status = 500,
      body = InternalErrorBody ''Internal Server Error''
               ''An unexpected error occurred on the server side.'' (err_message err)\<rparr> \<and>
   global_error_handler (JsError n m s items) = global_error_handler (JsError n' m s' items') \<and>
   catch_error unique_or_validation (validation_error (i # is)) =
     \<lparr>status = 400, body = ErrorBody ''Validation Error'' i\<rparr> \<and>
   catch_error unique_or_validation (unique_constraint_error (c # cs)) =
     \<lparr>status = 400, body = ErrorBody ''Validation Error'' (c @ '' must be unique'')\<rparr>"
  by (simp add: global_error_handler_def catch_error_def unique_or_validation_def
      validation_error_def unique_constraint_error_def)

subsection \<open>Creating environments\<close>

lemma Environment_create_Val:
  "Environment_create d (Val n) ds = Inr (d', e) \<longleftrightarrow>
     (length n \<le> 100 \<and> toUpperCase n \<notin> set (map env_name (environments d)) \<and>
      e = \<lparr>env_id = Suc (env_seq d), env_name = toUpperCase n,
            env_description = (case ds of Val t \<Rightarrow> Some t | _ \<Rightarrow> None)\<rparr> \<and>
      d' = d\<lparr>environments := environments d @ [e], env_seq := Suc (env_seq d)\<rparr>)"
  by (auto simp: Environment_create_def Let_def length_toUpperCase)

lemma post_environments_created:
  assumes "post_environments d b = (d', r)" and "status r = 201"
  shows "\<exists>n e. eb_name b = Val n \<and> Environment_create d (Val n) (eb_description b) = Inr (d', e) \<and>
           r = \<lparr>status = 201, body = EnvData ''Environment created successfully'' e\<rparr>"
  using assms
  by (auto simp: post_environments_def catch_error_def global_error_handler_def
      split: sum.splits field.splits if_splits list.splits prod.splits
      simp: Environment_create_def)

lemma post_environments_case_collision:
  assumes "post_environments d \<lparr>eb_name = Val n1, eb_description = ds1\<rparr> = (d', r)"
    and "status r = 201" and "toUpperCase n2 = toUpperCase n1"
  shows "post_environments d' \<lparr>eb_name = Val n2, eb_description = ds2\<rparr> =
           (d', \<lparr>status = 400, body = ErrorBody ''Validation Error'' ''name must be unique''\<rparr>)"
proof -
  from post_environments_created[OF assms(1,2)] obtain e where
    c: "Environment_create d (Val n1) ds1 = Inr (d', e)" by auto
  then have "toUpperCase n1 \<in> set (map env_name (environments d'))" and "length n1 \<le> 100"
    by (auto simp: Environment_create_Val)
  moreover have "length n2 = length n1"
    using assms(3) by (metis length_toUpperCase)
  ultimately show ?thesis
    using assms(3)
    by (simp add: post_environments_def Environment_create_def Let_def length_toUpperCase
        catch_error_def unique_or_validation_def unique_constraint_error_def)
qed

text \<open>
  C3 (the code departs from the claim). Two creates whose names differ only in case
  collide as claimed (\<open>post_environments_case_collision\<close>). A create without a name
  does not answer with a validation error: the setter of \<^verbatim>\<open>name\<close> throws a TypeError
  on \<^verbatim>\<open>undefined\<close>, the \<^verbatim>\<open>catch\<close> block knows only the two Sequelize errors, and the
  request ends in the centralized handler with a 500, whatever the state of the store.
\<close>

theorem post_environments_name_missing:
  "post_environments d \<lparr>eb_name = Absent, eb_description = ds\<rparr> =
     (d, \<lparr>status = 500,
          body = InternalErrorBody ''Internal Server Error''
                   ''An unexpected error occurred on the server side.''
                   ''Cannot read properties of undefined (reading 'toUpperCase')''\<rparr>)"
  by (simp add: post_environments_def Environment_create_def catch_error_def
      unique_or_validation_def type_error_def global_error_handler_def)

subsection \<open>The flattened configuration\<close>

lemma obj_set_keys:
  "fst ` set (obj_set acc k v) =
     (if k = ''__proto__'' then fst ` set acc else insert k (fst ` set acc))"
  using dom_update[of k v acc] by (simp add: obj_set_def dom_map_of_conv_image_fst)

lemma map_of_obj_set:
  "map_of (obj_set acc k v) = (if k = ''__proto__'' then map_of acc else (map_of acc)(k \<mapsto> v))"
  by (simp add: obj_set_def update_conv')

lemma foldl_obj_set_keys:
  "fst ` set (foldl (\<lambda>acc v. obj_set acc (var_name v) (var_value v)) acc vs) =
     fst ` set acc \<union> (set (map var_name vs) - {''__proto__''})"
proof (induction vs arbitrary: acc)
  case Nil
  then show ?case by simp
next
  case (Cons v vs)
  show ?case
    by (simp only: foldl_Cons Cons.IH obj_set_keys) auto
qed

lemma foldl_obj_set_lookup:
  assumes "k \<notin> set (map var_name vs)"
  shows "map_of (foldl (\<lambda>acc v. obj_set acc (var_name v) (var_value v)) acc vs) k = map_of acc k"
  using assms
proof (induction vs arbitrary: acc)
  case Nil
  then show ?case by simp
next
  case (Cons v vs)
  then have k: "k \<notin> set (map var_name vs)" and "k \<noteq> var_name v" by auto
  then have "map_of (obj_set acc (var_name v) (var_value v)) k = map_of acc k"
    by (simp add: map_of_obj_set)
  with Cons.IH[OF k, of "obj_set acc (var_name v) (var_value v)"] show ?case by simp
qed

lemma foldl_obj_set_value:
  assumes "distinct (map var_name vs)" and "v \<in> set vs" and "var_name v \<noteq> ''__proto__''"
  shows "map_of (foldl (\<lambda>acc v. obj_set acc (var_name v) (var_value v)) acc vs) (var_name v)
           = Some (var_value v)"
  using assms
proof (induction vs arbitrary: acc)
  case Nil
  then show ?case by simp
next
  case (Cons w vs)
  show ?case
  proof (cases "v = w")
    case True
    with Cons.prems have "var_name v \<notin> set (map var_name vs)" by auto
    from foldl_obj_set_lookup[OF this, of "obj_set acc (var_name w) (var_value w)"]
    show ?thesis
      using True Cons.prems(3) by (simp add: map_of_obj_set)
  next
    case False
    with Cons.prems have "v \<in> set vs" "distinct (map var_name vs)" by auto
    then show ?thesis using Cons.IH[of "obj_set acc (var_name w) (var_value w)"] Cons.prems(3)
      by simp
  qed
qed

lemma flatten_exact:
  assumes "distinct (map var_name vs)" and "''__proto__'' \<notin> set (map var_name vs)"
  shows "fst ` set (flatten vs) = set (map var_name vs)"
    and "v \<in> set vs \<Longrightarrow> map_of (flatten vs) (var_name v) = Some (var_value v)"
proof -
  show "fst ` set (flatten vs) = set (map var_name vs)"
    using assms(2) unfolding flatten_def foldl_obj_set_keys by auto
  assume v: "v \<in> set vs"
  with assms(2) have "var_name v \<noteq> ''__proto__''" by force
  with assms(1) v show "map_of (flatten vs) (var_name v) = Some (var_value v)"
    unfolding flatten_def by (rule foldl_obj_set_value)
qed

lemma flat_config_example:
  "snd (get_environment_json example_db ''prod'') =
     \<lparr>status = 200, body = FlatConfig [(''A'', ''1''), (''B'', ''2'')]\<rparr>"
  by code_simp

text \<open>
  C1 (the code departs from the claim). For an environment whose variable names are
  distinct and none of which is \<^verbatim>\<open>__proto__\<close>, the object has exactly the names as
  keys, each with its value (\<open>flatten_exact\<close>). A variable named \<^verbatim>\<open>__proto__\<close> is
  accepted by \<^verbatim>\<open>POST\<close> and stored, and is then missing from the object: after creating
  environment \<^verbatim>\<open>E\<close> with the variables \<^verbatim>\<open>A = 1\<close> and \<^verbatim>\<open>__proto__ = 2\<close>, the endpoint
  answers \<^verbatim>\<open>{"A":"1"}\<close>.
\<close>

theorem flat_config_drops_proto:
  "snd (handle
         (run empty_db
            [PostEnvironments \<lparr>eb_name = Val ''e'', eb_description = Absent\<rparr>,
             PostVariables ''E''
               \<lparr>vb_name = Val ''A'', vb_value = Val ''1'', vb_description = Absent,
                vb_is_sensitive = Absent, vb_environment_id = None\<rparr>,
             PostVariables ''E''
               \<lparr>vb_name = Val ''__proto__'', vb_value = Val ''2'', vb_description = Absent,
                vb_is_sensitive = Absent, vb_environment_id = None\<rparr>])
         (GetEnvironmentJson ''E'')) =
     \<lparr>status = 200, body = FlatConfig [(''A'', ''1'')]\<rparr>"
  by code_simp

subsection \<open>The invariant of the store\<close>

lemma wf_empty_db: "wf_db empty_db"
  by (simp add: wf_db_def empty_db_def vars_unique_def)

lemma wf_Environment_create:
  assumes "wf_db d" and "Environment_create d nm ds = Inr (d', e)"
  shows "wf_db d'"
proof -
  from assms(2) obtain n where n: "nm = Val n" 
    by (cases nm) (auto simp: Environment_create_def)
  from assms(2)[unfolded n Environment_create_Val]
  have e: "e = \<lparr>env_id = Suc (env_seq d), env_name = toUpperCase n,
            env_description = (case ds of Val t \<Rightarrow> Some t | _ \<Rightarrow> None)\<rparr>"
    and d': "d' = d\<lparr>environments := environments d @ [e], env_seq := Suc (env_seq d)\<rparr>"
    and fresh: "toUpperCase n \<notin> set (map env_name (environments d))" by auto
  from assms(1) have "list_all (\<lambda>e. env_id e \<le> env_seq d) (environments d)"
    by (simp add: wf_db_def)
  then have ids: "Suc (env_seq d) \<notin> set (map env_id (environments d))"
    and le: "list_all (\<lambda>e. env_id e \<le> Suc (env_seq d)) (environments d)"
    by (auto simp: list_all_iff)
  show ?thesis
    using assms(1) fresh ids le
    by (auto simp: wf_db_def vars_unique_def d' e)
qed

lemma list_all_map_same:
  "(\<And>x. P (f x) = P x) \<Longrightarrow> list_all P (map f xs) = list_all P xs"
  by (induction xs) auto

lemma wf_Environment_update:
  assumes "wf_db d"
  shows "wf_db (fst (Environment_update d e ds))"
proof -
  let ?f = "\<lambda>r. if env_id r = env_id e
                 then r\<lparr>env_description := set_description ds (env_description r)\<rparr> else r"
  have "map env_id (map ?f (environments d)) = map env_id (environments d)"
    and "map env_name (map ?f (environments d)) = map env_name (environments d)"
    by (simp_all add: comp_def cong: map_cong)
  moreover have "list_all (\<lambda>e. env_id e \<le> env_seq d) (map ?f (environments d))
                   = list_all (\<lambda>e. env_id e \<le> env_seq d) (environments d)"
    by (rule list_all_map_same) simp
  ultimately show ?thesis
    using assms by (simp add: wf_db_def vars_unique_def Environment_update_def del: map_map)
qed

lemma wf_Environment_destroy:
  assumes "wf_db d"
  shows "wf_db (Environment_destroy d e)"
  using assms
  by (auto simp: wf_db_def vars_unique_def Environment_destroy_def distinct_map_filter
      list_all_iff)

lemma wf_Variable_destroy:
  assumes "wf_db d"
  shows "wf_db (Variable_destroy d v)"
  using assms
  by (auto simp: wf_db_def vars_unique_def Variable_destroy_def distinct_map_filter
      list_all_iff)


lemma Variable_create_Inr:
  assumes "Variable_create d nm vl ds sens i = Inr (d', row)"
  shows "\<exists>n v. nm = Val n \<and> vl = Val v \<and> sens \<noteq> Null \<and> length n \<le> 100 \<and>
           (i, n) \<notin> set (map var_key (variables d)) \<and> i \<in> set (map env_id (environments d)) \<and>
           row = \<lparr>var_id = Suc (var_seq d), var_name = n, var_value = v,
                  var_description = (case ds of Val t \<Rightarrow> Some t | _ \<Rightarrow> None),
                  var_is_sensitive = (case sens of Val b \<Rightarrow> b | _ \<Rightarrow> False),
                  var_environment_id = i\<rparr> \<and>
           d' = d\<lparr>variables := variables d @ [row], var_seq := Suc (var_seq d)\<rparr>"
  using assms
  by (cases nm; cases vl; cases sens)
     (auto simp: Variable_create_def notNull_on_create_def Let_def split: if_splits)

lemma wf_Variable_create:
  assumes "wf_db d" and "Variable_create d nm vl ds sens i = Inr (d', row)"
  shows "wf_db d'"
proof -
  from Variable_create_Inr[OF assms(2)] obtain n where
    key: "(i, n) \<notin> set (map var_key (variables d))"
    and fk: "i \<in> set (map env_id (environments d))"
    and row: "var_id row = Suc (var_seq d)" "var_key row = (i, n)" "var_environment_id row = i"
    and d': "d' = d\<lparr>variables := variables d @ [row], var_seq := Suc (var_seq d)\<rparr>"
    by (auto simp: var_key_def)
  from assms(1) have "list_all (\<lambda>v. var_id v \<le> var_seq d) (variables d)"
    by (simp add: wf_db_def)
  then have ids: "Suc (var_seq d) \<notin> set (map var_id (variables d))"
    and le: "list_all (\<lambda>v. var_id v \<le> Suc (var_seq d)) (variables d)"
    by (auto simp: list_all_iff)
  show ?thesis
    using assms(1) key fk ids le row
    by (auto simp: wf_db_def vars_unique_def d')
qed

lemma distinct_map_replace:
  assumes "distinct (map k xs)" and "k z \<notin> set (map k (filter (\<lambda>r. r \<noteq> x) xs))"
  shows "distinct (map k (map (\<lambda>r. if r = x then z else r) xs))"
  using assms
proof (induction xs)
  case Nil
  then show ?case by simp
next
  case (Cons y ys)
  then have IH: "distinct (map k (map (\<lambda>r. if r = x then z else r) ys))"
    by (auto split: if_splits)
  show ?case
  proof (cases "y = x")
    case True
    with Cons.prems(1) have "x \<notin> set ys" by force
    then have "map (\<lambda>r. if r = x then z else r) ys = ys"
      and "filter (\<lambda>r. r \<noteq> x) ys = ys"
      by (auto intro: map_idI simp: filter_id_conv)
    with Cons.prems True show ?thesis by simp
  next
    case False
    with Cons.prems have "k y \<notin> set (map k (map (\<lambda>r. if r = x then z else r) ys))"
      by (auto split: if_splits)
    with IH False show ?thesis by simp
  qed
qed

lemma map_update_by_id:
  assumes "distinct (map i xs)" and "x \<in> set xs"
  shows "map (\<lambda>r. if i r = i x then g r else r) xs = map (\<lambda>r. if r = x then g x else r) xs"
    and "filter (\<lambda>r. i r \<noteq> i x) xs = filter (\<lambda>r. r \<noteq> x) xs"
proof -
  from assms(1) have "inj_on i (set xs)" by (simp add: distinct_map)
  with assms(2) have "\<And>r. r \<in> set xs \<Longrightarrow> (i r = i x) = (r = x)"
    by (auto dest: inj_onD)
  then show "map (\<lambda>r. if i r = i x then g r else r) xs = map (\<lambda>r. if r = x then g x else r) xs"
    and "filter (\<lambda>r. i r \<noteq> i x) xs = filter (\<lambda>r. r \<noteq> x) xs"
    by (auto cong: map_cong filter_cong)
qed


lemma Variable_update_Inr:
  assumes "Variable_update d v vals = Inr (d', v')"
  shows "notNull_on_update vals = []"
    and "v' = apply_vals vals v"
    and "var_key (apply_vals vals v)
           \<notin> set (map var_key (filter (\<lambda>r. var_id r \<noteq> var_id v) (variables d)))"
    and "var_environment_id (apply_vals vals v) = var_environment_id v \<or>
         var_environment_id (apply_vals vals v) \<in> set (map env_id (environments d))"
    and "d' = d\<lparr>variables :=
                  map (\<lambda>r. if var_id r = var_id v then apply_vals vals r else r) (variables d)\<rparr>"
  using assms
  by (auto simp: Variable_update_def Let_def apply_vals_def split: if_splits option.splits)

lemma var_id_apply_vals: "var_id (apply_vals vals r) = var_id r"
  by (simp add: apply_vals_def)

lemma wf_Variable_update:
  assumes "wf_db d" and "v \<in> set (variables d)" and "Variable_update d v vals = Inr (d', v')"
  shows "wf_db d'"
proof -
  let ?f = "\<lambda>r. if var_id r = var_id v then apply_vals vals r else r"
  let ?z = "apply_vals vals v"
  note u = Variable_update_Inr[OF assms(3)]
  from assms(1) have ids: "distinct (map var_id (variables d))"
    and keys: "distinct (map var_key (variables d))"
    and fk: "set (map var_environment_id (variables d)) \<subseteq> set (map env_id (environments d))"
    and le: "list_all (\<lambda>v. var_id v \<le> var_seq d) (variables d)"
    by (simp_all add: wf_db_def vars_unique_def)
  have rows: "variables d' = map ?f (variables d)" and same: "environments d' = environments d"
    "env_seq d' = env_seq d" "var_seq d' = var_seq d"
    by (simp_all add: u(5))
  have f: "map ?f (variables d) = map (\<lambda>r. if r = v then ?z else r) (variables d)"
    and g: "filter (\<lambda>r. var_id r \<noteq> var_id v) (variables d) = filter (\<lambda>r. r \<noteq> v) (variables d)"
    using map_update_by_id[OF ids assms(2)] by blast+
  have 1: "distinct (map var_id (variables d'))"
  proof -
    have "map var_id (map ?f (variables d)) = map var_id (variables d)"
      by (induction "variables d") (auto simp: var_id_apply_vals)
    with ids show ?thesis unfolding rows by (simp only:)
  qed
  have 2: "distinct (map var_key (variables d'))"
    unfolding rows f using keys u(3)[unfolded g] by (rule distinct_map_replace)
  have 3: "set (map var_environment_id (variables d')) \<subseteq> set (map env_id (environments d'))"
  proof -
    from fk assms(2) have "var_environment_id v \<in> set (map env_id (environments d))" by auto
    with u(4) have "var_environment_id ?z \<in> set (map env_id (environments d))" by auto
    with fk show ?thesis unfolding rows f same by auto
  qed
  have 4: "list_all (\<lambda>v. var_id v \<le> var_seq d') (variables d')"
    unfolding rows same using le
    by (simp add: list_all_map_same[where f = ?f] var_id_apply_vals)
  from assms(1) 1 2 3 4 show ?thesis
    by (simp add: wf_db_def vars_unique_def same)
qed


lemma findVariable_Inr:
  assumes "findVariable d e n = Inr v"
  shows "v \<in> set (variables d)" and "var_environment_id v = env_id e" and "var_name v = n"
  using assms
  by (auto simp: findVariable_def find_Some_iff split: option.splits)

lemma findEnvironment_Inr:
  "findEnvironment d p = Inr e \<longleftrightarrow> Environment_findOne d (lookup_name p) = Some e"
  by (simp add: findEnvironment_def Let_def split: option.splits)

lemma Environment_findOne_Some:
  assumes "Environment_findOne d n = Some e"
  shows "e \<in> set (environments d)" and "env_name e = n"
  using assms by (auto simp: Environment_findOne_def find_Some_iff)

lemma wf_post_environments: "wf_db d \<Longrightarrow> wf_db (fst (post_environments d b))"
  by (auto simp: post_environments_def split: sum.splits dest: wf_Environment_create)

lemma wf_put_environment: "wf_db d \<Longrightarrow> wf_db (fst (put_environment d p b))"
  using wf_Environment_update[of d]
  by (auto simp: put_environment_def split: sum.splits prod.splits) (metis fst_conv)

lemma wf_patch_environment: "wf_db d \<Longrightarrow> wf_db (fst (patch_environment d p b))"
  using wf_Environment_update[of d]
  by (auto simp: patch_environment_def split: sum.splits prod.splits if_splits) (metis fst_conv)

lemma wf_delete_environment: "wf_db d \<Longrightarrow> wf_db (fst (delete_environment d p))"
  by (auto simp: delete_environment_def wf_Environment_destroy split: sum.splits)

lemma wf_post_variables: "wf_db d \<Longrightarrow> wf_db (fst (post_variables d p b))"
  by (auto simp: post_variables_def split: sum.splits dest: wf_Variable_create)

lemma wf_put_variable: "wf_db d \<Longrightarrow> wf_db (fst (put_variable d p n b))"
  by (auto simp: put_variable_def split: sum.splits
      dest: wf_Variable_update findVariable_Inr(1))

lemma wf_patch_variable: "wf_db d \<Longrightarrow> wf_db (fst (patch_variable d p n b))"
  by (auto simp: patch_variable_def split: sum.splits
      dest: wf_Variable_update findVariable_Inr(1))

lemma wf_delete_variable: "wf_db d \<Longrightarrow> wf_db (fst (delete_variable d p n))"
  by (auto simp: delete_variable_def wf_Variable_destroy split: sum.splits)

lemma fst_get_environment_json: "fst (get_environment_json d p) = d"
  by (simp add: get_environment_json_def split: sum.splits option.splits)

lemma fst_get_environments: "fst (get_environments d q) = d"
  by (simp add: get_environments_def Let_def split: sum.splits)

lemma fst_get_environment: "fst (get_environment d p) = d"
  by (simp add: get_environment_def split: sum.splits)

lemma fst_get_variables: "fst (get_variables d p q) = d"
  by (simp add: get_variables_def Let_def split: sum.splits)

lemma fst_get_variable: "fst (get_variable d p n) = d"
  by (simp add: get_variable_def split: sum.splits)

lemma wf_handle: "wf_db d \<Longrightarrow> wf_db (fst (handle d req))"
  by (cases req)
     (simp_all add: fst_get_environment_json fst_get_environments fst_get_environment
        fst_get_variables fst_get_variable wf_post_environments wf_put_environment
        wf_patch_environment wf_delete_environment wf_post_variables wf_put_variable
        wf_patch_variable wf_delete_variable)

lemma wf_run: "wf_db d \<Longrightarrow> wf_db (run d reqs)"
  unfolding run_def by (induction reqs arbitrary: d) (simp_all add: wf_handle)

subsection \<open>Creating variables\<close>

lemma findEnvironment_mem:
  assumes "findEnvironment d p = Inr e"
  shows "e \<in> set (environments d)" and "env_name e = lookup_name p"
  using assms Environment_findOne_Some[of d "lookup_name p" e]
  by (simp_all add: findEnvironment_Inr)











subsection \<open>Deleting an environment\<close>

lemma Environment_findOne_unique:
  assumes "distinct (map env_name (environments d))" and "e \<in> set (environments d)"
  shows "Environment_findOne d (env_name e) = Some e"
proof -
  from assms(1) have inj: "inj_on env_name (set (environments d))" by (simp add: distinct_map)
  obtain r where r: "Environment_findOne d (env_name e) = Some r"
    using assms(2) by (cases "Environment_findOne d (env_name e)")
      (auto simp: Environment_findOne_def find_None_iff)
  then have "r \<in> set (environments d)" "env_name r = env_name e"
    by (auto dest: Environment_findOne_Some)
  with inj assms(2) have "r = e" by (auto dest: inj_onD)
  with r show ?thesis by simp
qed

lemma findEnvironment_after_destroy:
  assumes "wf_db d" and "findEnvironment d p = Inr e"
  shows "findEnvironment (Environment_destroy d e) p =
           Inl \<lparr>status = 404,
                body = ErrorBody ''Not Found''
                         (''Environment '' @ quoted (lookup_name p) @ '' not found.'')\<rparr>"
proof -
  from assms(2) have e: "e \<in> set (environments d)" "env_name e = lookup_name p"
    by (auto dest: findEnvironment_mem)
  from assms(1) have "inj_on env_name (set (environments d))"
    by (simp add: wf_db_def distinct_map)
  with e have "\<And>r. r \<in> set (environments d) \<Longrightarrow> env_name r = lookup_name p \<Longrightarrow> r = e"
    by (metis inj_onD)
  then have "Environment_findOne (Environment_destroy d e) (lookup_name p) = None"
    by (auto simp: Environment_findOne_def Environment_destroy_def find_None_iff)
  then show ?thesis by (simp add: findEnvironment_def)
qed

text \<open>
  C2. Deleting an environment found under the route parameter answers 204 with an empty
  body; in the new state no variable row carries the environment's id (the rows of the
  other environments are all kept, so exactly its N rows are gone), no environment row
  has that id, and looking up any variable name under the same route parameter answers
  404.
\<close>

theorem delete_environment_cascade:
  assumes "wf_db d" and "findEnvironment d p = Inr e"
  shows "snd (delete_environment d p) = \<lparr>status = 204, body = NoBody\<rparr> \<and>
     variables_of (fst (delete_environment d p)) (env_id e) = [] \<and>
     variables (fst (delete_environment d p))
       = filter (\<lambda>v. var_environment_id v \<noteq> env_id e) (variables d) \<and>
     length (variables (fst (delete_environment d p))) + length (variables_of d (env_id e))
       = length (variables d) \<and>
     env_id e \<notin> set (map env_id (environments (fst (delete_environment d p)))) \<and>
     status (snd (get_variable (fst (delete_environment d p)) p var_nm)) = 404"
proof -
  have del: "delete_environment d p = (Environment_destroy d e, \<lparr>status = 204, body = NoBody\<rparr>)"
    using assms(2) by (simp add: delete_environment_def)
  have "length (filter (\<lambda>v. var_environment_id v \<noteq> env_id e) (variables d))
          + length (filter (\<lambda>v. var_environment_id v = env_id e) (variables d))
          = length (variables d)"
    using sum_length_filter_compl[of "\<lambda>v. var_environment_id v = env_id e" "variables d"]
    by simp
  moreover have "status (snd (get_variable (Environment_destroy d e) p var_nm)) = 404"
    by (simp add: get_variable_def findEnvironment_after_destroy[OF assms])
  ultimately show ?thesis
    by (auto simp: del Environment_destroy_def variables_of_def filter_empty_conv)
qed

theorem delete_environment_cascade_witness:
  "wf_db example_db \<and>
   length (variables_of example_db 2) = 2 \<and>
   snd (delete_environment example_db ''prod'') = \<lparr>status = 204, body = NoBody\<rparr> \<and>
   variables_of (fst (delete_environment example_db ''prod'')) 2 = [] \<and>
   variables (fst (delete_environment example_db ''prod'')) = [] \<and>
   status (snd (get_variable (fst (delete_environment example_db ''prod'')) ''prod'' ''A'')) = 404"
proof -
  have w: "wf_db example_db"
    unfolding example_db_def by (rule wf_run[OF wf_empty_db])
  have f: "findEnvironment example_db ''prod''
             = Inr \<lparr>env_id = 2, env_name = ''PROD'', env_description = Some ''live''\<rparr>"
    by code_simp
  have v: "length (variables_of example_db 2) = 2"
    "filter (\<lambda>v. var_environment_id v \<noteq> 2) (variables example_db) = []"
    by code_simp+
  from delete_environment_cascade[OF w f, of "''A''"] w v show ?thesis by simp
qed

subsection \<open>Names that end in the suffix\<close>






subsection \<open>Create, then look up\<close>





subsection \<open>Updating variables\<close>

lemma Variable_update_ok:
  assumes "wf_db d" and "v \<in> set (variables d)" and "notNull_on_update vals = []"
    and "case vb_name vals of Val nm \<Rightarrow> length nm \<le> 100 | _ \<Rightarrow> True"
    and "var_key (apply_vals vals v) \<notin> set (map var_key (filter (\<lambda>r. r \<noteq> v) (variables d)))"
    and "case vb_environment_id vals of
           Some i \<Rightarrow> i \<in> set (map env_id (environments d)) | None \<Rightarrow> True"
  shows "Variable_update d v vals =
           Inr (d\<lparr>variables :=
                    map (\<lambda>r. if r = v then apply_vals vals v else r) (variables d)\<rparr>,
                apply_vals vals v)"
proof -
  from assms(1) have ids: "distinct (map var_id (variables d))" by (simp add: wf_db_def)
  note m = map_update_by_id[OF ids assms(2)]
  from assms(4) have 1: "\<not> (case vb_name vals of Val nm \<Rightarrow> 100 < length nm | _ \<Rightarrow> False)"
    by (cases "vb_name vals") auto
  from assms(6) have 2: "\<not> (case vb_environment_id vals of
                 Some i \<Rightarrow> i \<notin> set (map env_id (environments d)) | None \<Rightarrow> False)"
    by (cases "vb_environment_id vals") auto
  from assms(5) have 3: "var_key (apply_vals vals v)
      \<notin> set (map var_key (filter (\<lambda>r. var_id r \<noteq> var_id v) (variables d)))"
    by (simp add: m(2))
  show ?thesis
    unfolding Variable_update_def Let_def m(1)[of "apply_vals vals"] using assms(3) 1 2 3
    by simp
qed

lemma key_not_among_others:
  assumes "distinct (map k xs)" and "x \<in> set xs"
  shows "k x \<notin> set (map k (filter (\<lambda>r. r \<noteq> x) xs))"
proof
  assume "k x \<in> set (map k (filter (\<lambda>r. r \<noteq> x) xs))"
  then obtain r where "r \<in> set xs" "r \<noteq> x" "k r = k x" by auto
  moreover from assms(1) have "inj_on k (set xs)" by (simp add: distinct_map)
  ultimately show False using assms(2) by (metis inj_onD)
qed


lemma findVariable_unique:
  assumes "vars_unique d" and "v \<in> set (variables d)" and "var_environment_id v = env_id e"
  shows "findVariable d e (var_name v) = Inr v"
proof -
  from assms(1) have inj: "inj_on var_key (set (variables d))"
    by (simp add: vars_unique_def distinct_map)
  obtain r where r: "find (\<lambda>r. var_environment_id r = env_id e \<and> var_name r = var_name v)
                       (variables d) = Some r"
    using assms(2,3)
    by (cases "find (\<lambda>r. var_environment_id r = env_id e \<and> var_name r = var_name v)
                 (variables d)") (auto simp: find_None_iff)
  then have "r \<in> set (variables d)" "var_key r = var_key v"
    using assms(3) by (auto simp: find_Some_iff var_key_def)
  with inj assms(2) have "r = v" by (metis inj_onD)
  with r show ?thesis by (simp add: findVariable_def)
qed



lemma apply_put_vals:
  assumes "notNull_on_update (put_vals v b) = []"
  shows "apply_vals (put_vals v b) v = spec_full_update b v"
    and "vb_name b \<noteq> Null" and "vb_value b \<noteq> Null" and "vb_is_sensitive b \<noteq> Null"
  using assms
  by (cases "vb_name b"; cases "vb_value b"; cases "vb_description b";
      cases "vb_is_sensitive b"; cases "var_description v";
      simp add: apply_vals_def put_vals_def spec_full_update_def set_description_def
        notNull_on_update_def)+

lemma apply_patch_vals:
  assumes "notNull_on_update b = []"
  shows "apply_vals b v = spec_partial_update b v"
    and "vb_name b \<noteq> Null" and "vb_value b \<noteq> Null" and "vb_is_sensitive b \<noteq> Null"
  using assms
  by (cases "vb_name b"; cases "vb_value b"; cases "vb_description b";
      cases "vb_is_sensitive b"; cases "vb_environment_id b";
      simp add: apply_vals_def spec_partial_update_def spec_full_update_def set_description_def
        notNull_on_update_def)+

lemma status_catch_error: "status (catch_error names error) \<noteq> 200"
  by (simp add: catch_error_def global_error_handler_def split: list.splits)

lemma Variable_update_row:
  assumes "wf_db d" and "v \<in> set (variables d)" and "Variable_update d v vals = Inr (d', v')"
  shows "v' \<in> set (variables d')"
proof -
  from assms(1) have ids: "distinct (map var_id (variables d))" by (simp add: wf_db_def)
  note u = Variable_update_Inr[OF assms(3)]
  have "variables d' = map (\<lambda>r. if r = v then apply_vals vals v else r) (variables d)"
    unfolding u(5) using map_update_by_id(1)[OF ids assms(2), of "apply_vals vals"] by simp
  with assms(2) u(2) show ?thesis by force
qed


lemma put_variable_200:
  assumes "wf_db d" and "findEnvironment d p = Inr e" and "findVariable d e nm = Inr v"
    and "status (snd (put_variable d p nm b)) = 200"
  shows "snd (put_variable d p nm b) =
           \<lparr>status = 200,
            body = VarData (''Variable '' @ var_name (spec_full_update b v) @ '' in ''
                              @ env_name e @ '' fully updated'')
                     (spec_full_update b v)\<rparr>"
    and "spec_full_update b v \<in> set (variables (fst (put_variable d p nm b)))"
    and "vb_name b \<noteq> Null \<and> vb_value b \<noteq> Null \<and> vb_is_sensitive b \<noteq> Null"
proof -
  obtain d' v' where u: "Variable_update d v (put_vals v b) = Inr (d', v')"
    using assms(2,3,4) status_catch_error[of unique_or_validation]
    by (cases "Variable_update d v (put_vals v b)") (auto simp: put_variable_def)
  note i = Variable_update_Inr[OF u]
  note a = apply_put_vals[OF i(1)]
  from assms(3) have v: "v \<in> set (variables d)" by (rule findVariable_Inr(1))
  have r: "put_variable d p nm b =
             (d', \<lparr>status = 200,
                   body = VarData (''Variable '' @ var_name v' @ '' in '' @ env_name e
                                     @ '' fully updated'') v'\<rparr>)"
    using assms(2,3) u by (simp add: put_variable_def)
  show "snd (put_variable d p nm b) =
           \<lparr>status = 200,
            body = VarData (''Variable '' @ var_name (spec_full_update b v) @ '' in ''
                              @ env_name e @ '' fully updated'')
                     (spec_full_update b v)\<rparr>"
    unfolding r i(2) a(1) by simp
  show "spec_full_update b v \<in> set (variables (fst (put_variable d p nm b)))"
    using Variable_update_row[OF assms(1) v u] unfolding r i(2) a(1) by simp
  show "vb_name b \<noteq> Null \<and> vb_value b \<noteq> Null \<and> vb_is_sensitive b \<noteq> Null"
    using a(2-4) by simp
qed

lemma patch_variable_200:
  assumes "wf_db d" and "findEnvironment d p = Inr e" and "findVariable d e nm = Inr v"
    and "status (snd (patch_variable d p nm b)) = 200"
  shows "snd (patch_variable d p nm b) =
           \<lparr>status = 200,
            body = VarData (''Variable '' @ var_name (spec_partial_update b v) @ '' in ''
                              @ env_name e @ '' partially updated'')
                     (spec_partial_update b v)\<rparr>"
    and "spec_partial_update b v \<in> set (variables (fst (patch_variable d p nm b)))"
    and "vb_name b \<noteq> Null \<and> vb_value b \<noteq> Null \<and> vb_is_sensitive b \<noteq> Null"
proof -
  obtain d' v' where u: "Variable_update d v b = Inr (d', v')"
    using assms(2,3,4) status_catch_error[of unique_or_validation]
    by (cases "Variable_update d v b") (auto simp: patch_variable_def)
  note i = Variable_update_Inr[OF u]
  note a = apply_patch_vals[OF i(1)]
  from assms(3) have v: "v \<in> set (variables d)" by (rule findVariable_Inr(1))
  have r: "patch_variable d p nm b =
             (d', \<lparr>status = 200,
                   body = VarData (''Variable '' @ var_name v' @ '' in '' @ env_name e
                                     @ '' partially updated'') v'\<rparr>)"
    using assms(2,3) u by (simp add: patch_variable_def)
  show "snd (patch_variable d p nm b) =
           \<lparr>status = 200,
            body = VarData (''Variable '' @ var_name (spec_partial_update b v) @ '' in ''
                              @ env_name e @ '' partially updated'')
                     (spec_partial_update b v)\<rparr>"
    unfolding r i(2) a(1) by simp
  show "spec_partial_update b v \<in> set (variables (fst (patch_variable d p nm b)))"
    using Variable_update_row[OF assms(1) v u] unfolding r i(2) a(1) by simp
  show "vb_name b \<noteq> Null \<and> vb_value b \<noteq> Null \<and> vb_is_sensitive b \<noteq> Null"
    using a(2-4) by simp
qed

lemma patch_only_description:
  assumes "wf_db d" and "findEnvironment d p = Inr e" and "findVariable d e nm = Inr v"
  shows "patch_variable d p nm (only_description ds) =
           (d\<lparr>variables :=
                 map (\<lambda>r. if r = v
                           then v\<lparr>var_description := set_description ds (var_description v)\<rparr>
                           else r) (variables d)\<rparr>,
            \<lparr>status = 200,
             body = VarData (''Variable '' @ var_name v @ '' in '' @ env_name e
                               @ '' partially updated'')
                      (v\<lparr>var_description := set_description ds (var_description v)\<rparr>)\<rparr>)"
proof -
  from assms(3) have v: "v \<in> set (variables d)" by (rule findVariable_Inr(1))
  have a: "apply_vals (only_description ds) v
             = v\<lparr>var_description := set_description ds (var_description v)\<rparr>"
    by (simp add: apply_vals_def only_description_def)
  from assms(1) have "distinct (map var_key (variables d))"
    by (simp add: wf_db_def vars_unique_def)
  from key_not_among_others[OF this v]
  have k: "var_key (apply_vals (only_description ds) v)
             \<notin> set (map var_key (filter (\<lambda>r. r \<noteq> v) (variables d)))"
    unfolding a by (simp add: var_key_def)
  have "Variable_update d v (only_description ds) =
           Inr (d\<lparr>variables :=
                    map (\<lambda>r. if r = v then apply_vals (only_description ds) v else r)
                      (variables d)\<rparr>,
                apply_vals (only_description ds) v)"
    by (rule Variable_update_ok[OF assms(1) v _ _ k])
       (simp_all add: only_description_def notNull_on_update_def)
  then show ?thesis
    using assms(2,3) unfolding a by (simp add: patch_variable_def)
qed


text \<open>
  C7. For a variable found under the route, a full update that answers 200 returns and
  stores the variable with each of the four fields overwritten by the body's key where
  it is present and left at its current value where it is omitted; a partial update
  that answers 200 returns and stores the variable with exactly the keys present
  applied. A partial update whose body holds only \<^verbatim>\<open>description\<close> always answers 200
  and changes nothing but the description of that one row.
\<close>

theorem variable_put_patch:
  assumes "wf_db d" and "findEnvironment d p = Inr e" and "findVariable d e nm = Inr v"
  shows "(status (snd (put_variable d p nm b)) = 200 \<longrightarrow>
            snd (put_variable d p nm b) =
              \<lparr>status = 200,
               body = VarData (''Variable '' @ var_name (spec_full_update b v) @ '' in ''
                                 @ env_name e @ '' fully updated'')
                        (spec_full_update b v)\<rparr> \<and>
            spec_full_update b v \<in> set (variables (fst (put_variable d p nm b))) \<and>
            vb_name b \<noteq> Null \<and> vb_value b \<noteq> Null \<and> vb_is_sensitive b \<noteq> Null) \<and>
         (status (snd (patch_variable d p nm b)) = 200 \<longrightarrow>
            snd (patch_variable d p nm b) =
              \<lparr>status = 200,
               body = VarData (''Variable '' @ var_name (spec_partial_update b v) @ '' in ''
                                 @ env_name e @ '' partially updated'')
                        (spec_partial_update b v)\<rparr> \<and>
            spec_partial_update b v \<in> set (variables (fst (patch_variable d p nm b))) \<and>
            vb_name b \<noteq> Null \<and> vb_value b \<noteq> Null \<and> vb_is_sensitive b \<noteq> Null) \<and>
         patch_variable d p nm (only_description ds) =
           (d\<lparr>variables :=
                 map (\<lambda>r. if r = v
                           then v\<lparr>var_description := set_description ds (var_description v)\<rparr>
                           else r) (variables d)\<rparr>,
            \<lparr>status = 200,
             body = VarData (''Variable '' @ var_name v @ '' in '' @ env_name e
                               @ '' partially updated'')
                      (v\<lparr>var_description := set_description ds (var_description v)\<rparr>)\<rparr>)"
  using put_variable_200[OF assms, of b] patch_variable_200[OF assms, of b]
    patch_only_description[OF assms, of ds]
  by blast

theorem variable_put_patch_witness:
  "snd (put_variable example_db ''prod'' ''A''
          \<lparr>vb_name = Absent, vb_value = Val ''9'', vb_description = Absent,
           vb_is_sensitive = Absent, vb_environment_id = None\<rparr>) =
     \<lparr>status = 200,
      body = VarData ''Variable A in PROD fully updated''
               \<lparr>var_id = 1, var_name = ''A'', var_value = ''9'', var_description = Some ''first'',
                var_is_sensitive = True, var_environment_id = 2\<rparr>\<rparr> \<and>
   snd (patch_variable example_db ''prod'' ''A'' (only_description (Val ''new''))) =
     \<lparr>status = 200,
      body = VarData ''Variable A in PROD partially updated''
               \<lparr>var_id = 1, var_name = ''A'', var_value = ''1'', var_description = Some ''new'',
                var_is_sensitive = True, var_environment_id = 2\<rparr>\<rparr>"
proof -
  have w: "wf_db example_db"
    unfolding example_db_def by (rule wf_run[OF wf_empty_db])
  have f: "findEnvironment example_db ''prod''
             = Inr \<lparr>env_id = 2, env_name = ''PROD'', env_description = Some ''live''\<rparr>"
    by code_simp
  have fv: "findVariable example_db
              \<lparr>env_id = 2, env_name = ''PROD'', env_description = Some ''live''\<rparr> ''A''
              = Inr \<lparr>var_id = 1, var_name = ''A'', var_value = ''1'',
                     var_description = Some ''first'', var_is_sensitive = True,
                     var_environment_id = 2\<rparr>"
    by code_simp
  have s: "status (snd (put_variable example_db ''prod'' ''A''
          \<lparr>vb_name = Absent, vb_value = Val ''9'', vb_description = Absent,
           vb_is_sensitive = Absent, vb_environment_id = None\<rparr>)) = 200"
    by code_simp
  from variable_put_patch[OF w f fv,
      of "\<lparr>vb_name = Absent, vb_value = Val ''9'', vb_description = Absent,
           vb_is_sensitive = Absent, vb_environment_id = None\<rparr>" "Val ''new''"] s
  show ?thesis
    by (simp add: spec_full_update_def set_description_def)
qed

subsection \<open>What a partial update may change\<close>







subsection \<open>Listing environments\<close>








end
